theory Spec2Isabelle
  imports Main
begin

section \<open>Strings and Python values\<close>

text \<open>
  A Python \<open>str\<close> is a sequence of Unicode code points, so it is modelled as a list of
  code points. The literals of \<open>export_spec_info.py\<close> that are plain ASCII are written
  through \<open>ascii\<close>; the others are given by their code points.
\<close>

type_synonym ustring = "nat list"

definition ascii :: "string \<Rightarrow> ustring" where
  "ascii cs = map of_char cs"

text \<open>The "not applicable" sentinel \<open>'N/A'\<close>.\<close>

definition NA :: ustring where
  "NA = ascii ''N/A''"

text \<open>
  The exceptions the exporter can meet. \<open>DataError\<close> stands for whatever \<open>open\<close> or
  \<open>json.load\<close> raise on a missing, unreadable or malformed file; \<open>ProviderError\<close> for
  whatever the translation service raises.
\<close>

datatype error =
    DataError
  | AttributeError
  | UnboundLocalError
  | IndexError
  | ValueError
  | OverflowError
  | ProviderError
  | OSError

section \<open>The catalog document\<close>

text \<open>
  What \<open>json.load\<close> returns. A dictionary is the list of its items in document order,
  which is the order \<open>.items()\<close> iterates in. A float is identified by the text
  \<open>str\<close> prints for it.
\<close>

datatype json =
    JNull
  | JBool bool
  | JInt int
  | JFloat ustring
  | JStr ustring
  | JList "json list"
  | JObj "(ustring \<times> json) list"

type_synonym items = "(ustring \<times> json) list"

text \<open>\<open>isinstance(v, dict)\<close>\<close>

fun is_dict :: "json \<Rightarrow> bool" where
  "is_dict (JObj kvs) = True"
| "is_dict v = False"

text \<open>\<open>v.items()\<close>: only a dictionary has the method.\<close>

fun items_of :: "json \<Rightarrow> error + items" where
  "items_of (JObj kvs) = Inr kvs"
| "items_of v = Inl AttributeError"

text \<open>\<open>k in d\<close>, \<open>d.get(k)\<close> and \<open>d.get(k, default)\<close> on a dictionary.\<close>

definition has_key :: "('k \<times> 'v) list \<Rightarrow> 'k \<Rightarrow> bool" where
  "has_key d k = (map_of d k \<noteq> None)"

definition get_default :: "items \<Rightarrow> ustring \<Rightarrow> json \<Rightarrow> json" where
  "get_default d k dflt = (case map_of d k of None \<Rightarrow> dflt | Some v \<Rightarrow> v)"

definition get :: "items \<Rightarrow> ustring \<Rightarrow> json" where
  "get d k = get_default d k JNull"

text \<open>
  \<open>str(v)\<close>. The decimal digits of an integer are computed; the text of a list or of a
  dictionary is Python's \<open>repr\<close>, taken from the environment as \<open>py_repr\<close>.
\<close>

fun str_nat :: "nat \<Rightarrow> ustring" where
  "str_nat n = (if n < 10 then [48 + n] else str_nat (n div 10) @ [48 + n mod 10])"

declare str_nat.simps [simp del]

definition str_int :: "int \<Rightarrow> ustring" where
  "str_int i = (if i < 0 then ascii ''-'' @ str_nat (nat (- i)) else str_nat (nat i))"

fun py_str :: "(json \<Rightarrow> ustring) \<Rightarrow> json \<Rightarrow> ustring" where
  "py_str rp JNull = ascii ''None''"
| "py_str rp (JBool b) = (if b then ascii ''True'' else ascii ''False'')"
| "py_str rp (JInt i) = str_int i"
| "py_str rp (JFloat r) = r"
| "py_str rp (JStr s) = s"
| "py_str rp (JList vs) = rp (JList vs)"
| "py_str rp (JObj kvs) = rp (JObj kvs)"

section \<open>The flat record of one model\<close>

text \<open>
  The dictionary \<open>spec_data\<close> built by \<open>load_spec_data\<close>. The key \<open>paramValues\<close> is
  present only when the model has \<open>config_data\<close>.
\<close>

record spec_data =
  specId :: json
  specName :: ustring
  brandName :: ustring
  seriesName :: ustring
  manufacturerName :: json
  yearType :: ustring
  price :: json
  paramValues :: "(ustring \<times> ustring) list option"

text \<open>The delimiter \<open>'\<close>U+6B3E\<open>'\<close> of the year type.\<close>

definition year_delimiter :: nat where
  "year_delimiter = 27454"

text \<open>\<open>s.split(sep)\<close> for a separator of one code point, and \<open>xs[0]\<close>.\<close>

fun split_on :: "nat \<Rightarrow> ustring \<Rightarrow> ustring list" where
  "split_on c [] = [[]]"
| "split_on c (x # xs) =
     (if x = c then [] # split_on c xs
      else case split_on c xs of
             [] \<Rightarrow> [[x]]
           | p # ps \<Rightarrow> (x # p) # ps)"

definition first_item :: "'a list \<Rightarrow> error + 'a" where
  "first_item xs = (case xs of [] \<Rightarrow> Inl IndexError | x # _ \<Rightarrow> Inr x)"

text \<open>
  Line 68:
  \<open>model_name.split(d)[0] if d in model_name else 'N/A'\<close>, with \<open>d\<close> the delimiter.
\<close>

definition year_type :: "ustring \<Rightarrow> error + ustring" where
  "year_type model_name =
     (if year_delimiter \<in> set model_name then first_item (split_on year_delimiter model_name)
      else Inr NA)"

text \<open>Lines 73 to 79: one entry \<open>category-param_name\<close> per parameter, in document order.\<close>

fun flatten_params :: "(json \<Rightarrow> ustring) \<Rightarrow> ustring \<Rightarrow> items \<Rightarrow> (ustring \<times> ustring) list" where
  "flatten_params rp category [] = []"
| "flatten_params rp category ((param_name, param_value) # ps) =
     (category @ ascii ''-'' @ param_name, py_str rp param_value) # flatten_params rp category ps"

fun flatten_config :: "(json \<Rightarrow> ustring) \<Rightarrow> items \<Rightarrow> error + (ustring \<times> ustring) list" where
  "flatten_config rp [] = Inr []"
| "flatten_config rp ((category, params) # cs) =
     (case items_of params of
        Inl e \<Rightarrow> Inl e
      | Inr ps \<Rightarrow>
          (case flatten_config rp cs of
             Inl e \<Rightarrow> Inl e
           | Inr rest \<Rightarrow> Inr (flatten_params rp category ps @ rest)))"

text \<open>Lines 62 to 80: the record of a matching model.\<close>

definition build_spec ::
  "(json \<Rightarrow> ustring) \<Rightarrow> ustring \<Rightarrow> items \<Rightarrow> ustring \<Rightarrow> ustring \<Rightarrow> items \<Rightarrow> error + spec_data" where
  "build_spec rp brand_name brand_data series_name model_name model_data =
     (case year_type model_name of
        Inl e \<Rightarrow> Inl e
      | Inr yt \<Rightarrow>
          let spec = \<lparr>specId = get model_data (ascii ''spec_id''),
                      specName = model_name,
                      brandName = brand_name,
                      seriesName = series_name,
                      manufacturerName = get_default brand_data (ascii ''manufacturer_name'') (JStr NA),
                      yearType = yt,
                      price = get_default model_data (ascii ''price'') (JStr NA),
                      paramValues = None\<rparr>
          in (case map_of model_data (ascii ''config_data'') of
                None \<Rightarrow> Inr spec
              | Some config_data \<Rightarrow>
                  (case items_of config_data of
                     Inl e \<Rightarrow> Inl e
                   | Inr cs \<Rightarrow>
                       (case flatten_config rp cs of
                          Inl e \<Rightarrow> Inl e
                        | Inr param_values \<Rightarrow>
                            Inr (spec\<lparr>paramValues := Some param_values\<rparr>)))))"

section \<open>The exporter's state and its environment\<close>

text \<open>An entry of the list \<open>specs\<close> that \<open>export_all_specs\<close> hands to the index page.\<close>

record index_entry =
  entry_specId :: ustring
  entry_specName :: ustring
  entry_brandName :: ustring
  entry_seriesName :: ustring

text \<open>
  A translated text is what \<open>translate_text\<close> returns: a string, or Python's \<open>None\<close>.
  \<open>polish_info\<close> maps a category to its rows, in insertion order.
\<close>

type_synonym row = "ustring option \<times> ustring option"

type_synonym polish_info = "(ustring \<times> row list) list"

text \<open>
  What a written page holds: the record, the image names and the translated tables. The
  HTML text around them is left out.
\<close>

record page =
  page_spec :: spec_data
  page_images :: "ustring list"
  page_tables :: "(ustring option \<times> row list) list"

text \<open>
  \<open>self.cache\<close> and \<open>self.spec_data_cache\<close> of \<open>SpecExporter\<close>, and beside them what
  leaves the process: every invocation of \<open>self.translator.translate\<close>, every
  \<open>time.sleep\<close>, every invocation of \<open>_save_cache\<close> with the dictionary it is asked to
  write, every invocation of \<open>export_spec_info\<close>, the pages written and the index page.
\<close>

record exporter =
  cache :: "ustring \<rightharpoonup> ustring"
  spec_data_cache :: "ustring \<rightharpoonup> spec_data"
  calls :: "(ustring \<times> ustring) list"
  sleeps :: "int list"
  saves :: "(ustring \<rightharpoonup> ustring) list"
  export_calls :: "ustring list"
  pages :: "(ustring \<times> page) list"
  index_page :: "index_entry list option"

text \<open>
  What the program reads from outside.
  \<^item> \<open>provider n text dest\<close> is the answer of the translation service to the \<open>n\<close>-th
    invocation made by the process: \<open>Some t\<close> when \<open>translate(text, dest=dest).text\<close>
    evaluates to \<open>t\<close>, \<open>None\<close> when an exception is raised there.
  \<^item> \<open>catalog_file\<close> is the outcome of opening \<open>data_path\<close> and of \<open>json.load\<close>.
  \<^item> \<open>cache_file\<close> is the translation cache found on disk at start, if any.
  \<^item> \<open>py_repr\<close> is Python's text of a list or dictionary.
  \<^item> \<open>list_images spec_id\<close> is the outcome of lines 160 to 176: creating the image
    directory, listing and sorting its pictures.
  \<^item> \<open>write_page spec_id\<close> and \<open>write_index\<close> tell whether writing the files succeeds.
  \<^item> \<open>sleep_error secs\<close> is the exception with which the platform's \<open>time.sleep\<close>
    refuses \<open>secs\<close>, if it does (a delay too large for its clock raises
    \<open>OverflowError\<close>).
\<close>

record env =
  provider :: "nat \<Rightarrow> ustring \<Rightarrow> ustring \<Rightarrow> ustring option"
  catalog_file :: "error + json"
  cache_file :: "(ustring \<rightharpoonup> ustring) option"
  py_repr :: "json \<Rightarrow> ustring"
  list_images :: "ustring \<Rightarrow> error + ustring list"
  write_page :: "ustring \<Rightarrow> bool"
  write_index :: bool
  sleep_error :: "int \<Rightarrow> error option"

text \<open>
  \<open>time.sleep(secs)\<close>: \<open>None\<close> when the call returns, otherwise the exception. Beside
  what the platform refuses, a negative delay always raises \<open>ValueError\<close>.
\<close>

definition time_sleep :: "env \<Rightarrow> int \<Rightarrow> error option" where
  "time_sleep e secs =
     (case sleep_error e secs of
        Some err \<Rightarrow> Some err
      | None \<Rightarrow> if secs < 0 then Some ValueError else None)"

text \<open>\<open>_load_cache\<close> and \<open>__init__\<close>.\<close>

definition load_cache :: "env \<Rightarrow> (ustring \<rightharpoonup> ustring)" where
  "load_cache e = (case cache_file e of None \<Rightarrow> Map.empty | Some c \<Rightarrow> c)"

definition new_exporter :: "env \<Rightarrow> exporter" where
  "new_exporter e =
     \<lparr>cache = load_cache e, spec_data_cache = Map.empty, calls = [], sleeps = [], saves = [],
      export_calls = [], pages = [], index_page = None\<rparr>"

section \<open>Looking a model up by its id\<close>

text \<open>The three nested loops of \<open>load_spec_data\<close>, lines 47 to 85.\<close>

fun scan_models ::
  "(json \<Rightarrow> ustring) \<Rightarrow> ustring \<Rightarrow> items \<Rightarrow> ustring \<Rightarrow> items \<Rightarrow> ustring \<Rightarrow> error + spec_data option" where
  "scan_models rp brand_name brand_data series_name [] spec_id = Inr None"
| "scan_models rp brand_name brand_data series_name ((model_name, model_data) # ms) spec_id =
     (case model_data of
        JObj md \<Rightarrow>
          if py_str rp (get md (ascii ''spec_id'')) = spec_id
          then (case build_spec rp brand_name brand_data series_name model_name md of
                  Inl e \<Rightarrow> Inl e
                | Inr spec \<Rightarrow> Inr (Some spec))
          else scan_models rp brand_name brand_data series_name ms spec_id
      | _ \<Rightarrow> scan_models rp brand_name brand_data series_name ms spec_id)"

fun scan_series ::
  "(json \<Rightarrow> ustring) \<Rightarrow> ustring \<Rightarrow> items \<Rightarrow> items \<Rightarrow> ustring \<Rightarrow> error + spec_data option" where
  "scan_series rp brand_name brand_data [] spec_id = Inr None"
| "scan_series rp brand_name brand_data ((series_name, series_data) # ss) spec_id =
     (case series_data of
        JObj sd \<Rightarrow>
          (case map_of sd (ascii ''models'') of
             None \<Rightarrow> scan_series rp brand_name brand_data ss spec_id
           | Some models \<Rightarrow>
               (case items_of models of
                  Inl e \<Rightarrow> Inl e
                | Inr ms \<Rightarrow>
                    (case scan_models rp brand_name brand_data series_name ms spec_id of
                       Inl e \<Rightarrow> Inl e
                     | Inr (Some spec) \<Rightarrow> Inr (Some spec)
                     | Inr None \<Rightarrow> scan_series rp brand_name brand_data ss spec_id)))
      | _ \<Rightarrow> scan_series rp brand_name brand_data ss spec_id)"

fun scan_brands :: "(json \<Rightarrow> ustring) \<Rightarrow> items \<Rightarrow> ustring \<Rightarrow> error + spec_data option" where
  "scan_brands rp [] spec_id = Inr None"
| "scan_brands rp ((brand_name, brand_data) # bs) spec_id =
     (case brand_data of
        JObj bd \<Rightarrow>
          (case map_of bd (ascii ''series'') of
             None \<Rightarrow> scan_brands rp bs spec_id
           | Some series \<Rightarrow>
               (case items_of series of
                  Inl e \<Rightarrow> Inl e
                | Inr ss \<Rightarrow>
                    (case scan_series rp brand_name bd ss spec_id of
                       Inl e \<Rightarrow> Inl e
                     | Inr (Some spec) \<Rightarrow> Inr (Some spec)
                     | Inr None \<Rightarrow> scan_brands rp bs spec_id)))
      | _ \<Rightarrow> scan_brands rp bs spec_id)"

text \<open>The body of the \<open>try\<close>, lines 44 to 85: what it returns, or the exception it raises.\<close>

definition scan_catalog :: "env \<Rightarrow> ustring \<Rightarrow> error + spec_data option" where
  "scan_catalog e spec_id =
     (case catalog_file e of
        Inl err \<Rightarrow> Inl err
      | Inr data \<Rightarrow>
          (case items_of data of
             Inl err \<Rightarrow> Inl err
           | Inr brands \<Rightarrow> scan_brands (py_repr e) brands spec_id))"

text \<open>
  \<open>load_spec_data(self, spec_id)\<close>. The result is what the caller sees: \<open>Inl\<close> an
  exception that leaves the method, \<open>Inr None\<close> Python's \<open>None\<close>, \<open>Inr (Some spec)\<close> the
  record. A record that is found is memoised; the handler of line 87 prints and returns
  \<open>None\<close>.
\<close>

definition load_spec_data :: "env \<Rightarrow> ustring \<Rightarrow> exporter \<Rightarrow> (error + spec_data option) \<times> exporter" where
  "load_spec_data e spec_id s =
     (case spec_data_cache s spec_id of
        Some spec \<Rightarrow> (Inr (Some spec), s)
      | None \<Rightarrow>
          (case scan_catalog e spec_id of
             Inr (Some spec) \<Rightarrow>
               (Inr (Some spec), s\<lparr>spec_data_cache := (spec_data_cache s)(spec_id \<mapsto> spec)\<rparr>)
           | Inr None \<Rightarrow> (Inr None, s)
           | Inl err \<Rightarrow> (Inr None, s)))"

section \<open>Translation with cache and retries\<close>

text \<open>\<open>cache_key = f"{text}_{dest_lang}"\<close>\<close>

definition cache_key :: "ustring \<Rightarrow> ustring \<Rightarrow> ustring" where
  "cache_key text dest_lang = text @ ascii ''_'' @ dest_lang"

text \<open>
  \<open>_save_cache\<close> hands the whole dictionary to \<open>json.dump\<close>; a failure of the write is
  caught and printed, so the method always returns.
\<close>

definition save_cache :: "exporter \<Rightarrow> exporter" where
  "save_cache s = s\<lparr>saves := saves s @ [cache s]\<rparr>"

text \<open>
  The body of the \<open>try\<close> of one attempt (lines 102 to 108). After the first attempt
  \<open>time.sleep\<close> comes first and may raise; the provider call may raise; otherwise the
  result is stored, the cache is saved and the translation is the value of the attempt.
\<close>

definition attempt_body ::
  "env \<Rightarrow> ustring \<Rightarrow> ustring \<Rightarrow> int \<Rightarrow> int \<Rightarrow> exporter \<Rightarrow> (error + ustring) \<times> exporter" where
  "attempt_body e text dest_lang retry_delay attempt s =
     (case (if attempt > 0 then time_sleep e retry_delay else None) of
        Some err \<Rightarrow> (Inl err, s)
      | None \<Rightarrow>
          let s1 = (if attempt > 0 then s\<lparr>sleeps := sleeps s @ [retry_delay]\<rparr> else s);
              s2 = s1\<lparr>calls := calls s1 @ [(text, dest_lang)]\<rparr>
          in (case provider e (length (calls s1)) text dest_lang of
                None \<Rightarrow> (Inl ProviderError, s2)
              | Some translated \<Rightarrow>
                  (Inr translated,
                   save_cache
                     (s2\<lparr>cache := (cache s2)(cache_key text dest_lang \<mapsto> translated)\<rparr>))))"

text \<open>
  \<open>for attempt in range(max_retries)\<close>: a successful attempt returns the translation, a
  failed last attempt returns the original text, any other failed attempt goes on. When
  the loop ends without a \<open>return\<close> the function returns Python's \<open>None\<close>.
\<close>

function retry_loop ::
  "env \<Rightarrow> ustring \<Rightarrow> ustring \<Rightarrow> int \<Rightarrow> int \<Rightarrow> int \<Rightarrow> exporter
     \<Rightarrow> ustring option \<times> exporter" where
  "retry_loop e text dest_lang max_retries retry_delay attempt s =
     (if attempt < max_retries then
        (case attempt_body e text dest_lang retry_delay attempt s of
           (Inr translated, s') \<Rightarrow> (Some translated, s')
         | (Inl err, s') \<Rightarrow>
             if attempt = max_retries - 1 then (Some text, s')
             else retry_loop e text dest_lang max_retries retry_delay (attempt + 1) s')
      else (None, s))"
  by pat_completeness auto
termination
  by (relation "measure (\<lambda>(e, text, dest_lang, max_retries, retry_delay, attempt, s).
        nat (max_retries - attempt))") auto

declare retry_loop.simps [simp del]

text \<open>\<open>translate_text(self, text, dest_lang, max_retries, retry_delay)\<close>\<close>

definition translate_text ::
  "env \<Rightarrow> ustring \<Rightarrow> ustring \<Rightarrow> int \<Rightarrow> int \<Rightarrow> exporter
     \<Rightarrow> ustring option \<times> exporter" where
  "translate_text e text dest_lang max_retries retry_delay s =
     (if text = [] \<or> text = NA then (Some text, s)
      else case cache s (cache_key text dest_lang) of
             Some cached \<Rightarrow> (Some cached, s)
           | None \<Rightarrow> retry_loop e text dest_lang max_retries retry_delay 0 s)"

text \<open>\<open>batch_translate\<close>: the list comprehension calls \<open>translate_text\<close> with its defaults.\<close>

fun batch_translate ::
  "env \<Rightarrow> ustring list \<Rightarrow> ustring \<Rightarrow> exporter
     \<Rightarrow> ustring option list \<times> exporter" where
  "batch_translate e [] dest_lang s = ([], s)"
| "batch_translate e (text # texts) dest_lang s =
     (case translate_text e text dest_lang 3 1 s of
        (t, s1) \<Rightarrow>
          (case batch_translate e texts dest_lang s1 of
             (ts, s2) \<Rightarrow> (t # ts, s2)))"

section \<open>Exporting one model\<close>

text \<open>The seven labels of line 129 and the category of line 126, by code point.\<close>

definition base_items :: "ustring list" where
  "base_items =
     [[36710, 22411, 21517, 31216], [21697, 29260], [21378, 21830], [36710, 31995],
      [24180, 27454], [20215, 26684, 40, 19975, 41], [36710, 22411, 73, 68]]"

definition basic_info :: ustring where
  "basic_info = [22522, 26412, 20449, 24687]"

text \<open>
  Lines 130 to 138. Every key is present in the record, so no default of \<open>get\<close> is used.
\<close>

definition base_values :: "spec_data \<Rightarrow> json list" where
  "base_values spec =
     [JStr (specName spec), JStr (brandName spec), manufacturerName spec, JStr (seriesName spec),
      JStr (yearType spec), price spec, specId spec]"

text \<open>
  \<open>name.split('-', 1)\<close> unpacked into two names: the parts before and after the first
  \<open>'-'\<close>, or a \<open>ValueError\<close> (here \<open>None\<close>) when there is no \<open>'-'\<close>.
\<close>

fun split_once :: "nat \<Rightarrow> ustring \<Rightarrow> (ustring \<times> ustring) option" where
  "split_once c [] = None"
| "split_once c (x # xs) =
     (if x = c then Some ([], xs)
      else case split_once c xs of
             None \<Rightarrow> None
           | Some (a, b) \<Rightarrow> Some (x # a, b))"

text \<open>\<open>polish_info[param_type].append(r)\<close> on the insertion-ordered dictionary.\<close>

fun dict_append :: "polish_info \<Rightarrow> ustring \<Rightarrow> row \<Rightarrow> polish_info" where
  "dict_append [] k r = []"
| "dict_append ((k', rs) # d) k r =
     (if k' = k then (k', rs @ [r]) # d else (k', rs) # dict_append d k r)"

text \<open>The loop of lines 146 to 154.\<close>

fun translate_params ::
  "env \<Rightarrow> (ustring \<times> ustring) list \<Rightarrow> polish_info
     \<Rightarrow> exporter \<Rightarrow> (error + polish_info) \<times> exporter" where
  "translate_params e [] info s = (Inr info, s)"
| "translate_params e ((name, val) # params) info s =
     (case split_once 45 name of
        None \<Rightarrow> (Inl ValueError, s)
      | Some (param_type, param_name) \<Rightarrow>
          let info1 = (if has_key info param_type then info else info @ [(param_type, [])])
          in case translate_text e param_name (ascii ''pl'') 3 1 s of
               (name_pl, s1) \<Rightarrow>
                 (case translate_text e val (ascii ''pl'') 3 1 s1 of
                    (value_pl, s2) \<Rightarrow>
                      translate_params e params
                        (dict_append info1 param_type (name_pl, value_pl)) s2))"

text \<open>The loop of lines 180 to 204, without the HTML around the translated category.\<close>

fun translate_categories ::
  "env \<Rightarrow> polish_info \<Rightarrow> exporter
     \<Rightarrow> (ustring option \<times> row list) list \<times> exporter" where
  "translate_categories e [] s = ([], s)"
| "translate_categories e ((category, params) # info) s =
     (case translate_text e category (ascii ''pl'') 3 1 s of
        (category_pl, s1) \<Rightarrow>
          (case translate_categories e info s1 of
             (tables, s2) \<Rightarrow> ((category_pl, params) # tables, s2)))"

text \<open>The \<open>try\<close> of lines 127 to 154: the translated tables, or the exception.\<close>

definition translate_spec ::
  "env \<Rightarrow> spec_data \<Rightarrow> exporter \<Rightarrow> (error + polish_info) \<times> exporter" where
  "translate_spec e spec s =
     (case batch_translate e base_items (ascii ''pl'') s of
        (items_pl, s1) \<Rightarrow>
          (case batch_translate e (map (py_str (py_repr e)) (base_values spec))
                  (ascii ''pl'') s1 of
             (values_pl, s2) \<Rightarrow>
               (case paramValues spec of
                  None \<Rightarrow> (Inr [(basic_info, zip items_pl values_pl)], s2)
                | Some params \<Rightarrow>
                    translate_params e params [(basic_info, zip items_pl values_pl)] s2)))"

text \<open>
  \<open>export_spec_info(self, spec_id)\<close>. No record: return. An exception while translating
  is printed and the method returns; one raised while the images are listed or the page
  is written leaves the method.
\<close>

definition export_spec_info :: "env \<Rightarrow> ustring \<Rightarrow> exporter \<Rightarrow> (error + unit) \<times> exporter" where
  "export_spec_info e spec_id s0 =
     (case load_spec_data e spec_id (s0\<lparr>export_calls := export_calls s0 @ [spec_id]\<rparr>) of
        (Inl err, s) \<Rightarrow> (Inl err, s)
      | (Inr None, s) \<Rightarrow> (Inr (), s)
      | (Inr (Some spec), s) \<Rightarrow>
          (case translate_spec e spec s of
             (Inl err, s1) \<Rightarrow> (Inr (), s1)
           | (Inr info, s1) \<Rightarrow>
               (case list_images e spec_id of
                  Inl err \<Rightarrow> (Inl err, s1)
                | Inr car_images \<Rightarrow>
                    (case translate_categories e info s1 of
                       (tables, s2) \<Rightarrow>
                         if write_page e spec_id
                         then (Inr (),
                               s2\<lparr>pages := pages s2 @
                                    [(spec_id, \<lparr>page_spec = spec, page_images = car_images,
                                                page_tables = tables\<rparr>)]\<rparr>)
                         else (Inl OSError, s2)))))"

section \<open>Exporting the whole catalog\<close>

text \<open>
  The local variables of \<open>export_all_specs\<close> that outlive an iteration: the list \<open>specs\<close>
  and the pair \<open>model_name, model_data\<close>, which is unbound until the first iteration of
  an inner loop binds it and keeps its last binding afterwards.
\<close>

type_synonym locals = "index_entry list \<times> (ustring \<times> json) option"

text \<open>
  Lines 438 to 440: the body of the inner loop is only the \<open>continue\<close> of a model that is
  not a dictionary, so an iteration does nothing but bind the two variables.
\<close>

fun models_loop :: "items \<Rightarrow> (ustring \<times> json) option \<Rightarrow> (ustring \<times> json) option" where
  "models_loop [] cur = cur"
| "models_loop ((model_name, model_data) # ms) cur =
     (if \<not> is_dict model_data then models_loop ms (Some (model_name, model_data))
      else models_loop ms (Some (model_name, model_data)))"

text \<open>
  Lines 442 to 451, which follow the inner loop inside the same \<open>if\<close>:
  \<open>model_data.get\<close> needs the variable bound and a dictionary behind it.
\<close>

definition export_last ::
  "env \<Rightarrow> ustring \<Rightarrow> ustring \<Rightarrow> locals \<Rightarrow> exporter \<Rightarrow> (error + locals) \<times> exporter" where
  "export_last e brand_name series_name loc s =
     (case snd loc of
        None \<Rightarrow> (Inl UnboundLocalError, s)
      | Some (model_name, model_data) \<Rightarrow>
          (case model_data of
             JObj md \<Rightarrow>
               let spec_id = py_str (py_repr e) (get md (ascii ''spec_id''))
               in if spec_id \<noteq> []
                  then let specs = fst loc @
                                [\<lparr>entry_specId = spec_id, entry_specName = model_name,
                                  entry_brandName = brand_name, entry_seriesName = series_name\<rparr>]
                       in (case export_spec_info e spec_id s of
                             (Inl err, s1) \<Rightarrow> (Inl err, s1)
                           | (Inr u, s1) \<Rightarrow> (Inr (specs, snd loc), s1))
                  else (Inr loc, s)
           | _ \<Rightarrow> (Inl AttributeError, s)))"

text \<open>
  The loop over the series of a brand, lines 433 to 451. Lines 442 to 451 are inside
  \<open>if 'models' in series_data\<close>, after its inner loop: a series without the key is
  passed over.
\<close>

fun series_loop ::
  "env \<Rightarrow> ustring \<Rightarrow> items \<Rightarrow> locals \<Rightarrow> exporter \<Rightarrow> (error + locals) \<times> exporter" where
  "series_loop e brand_name [] loc s = (Inr loc, s)"
| "series_loop e brand_name ((series_name, series_data) # ss) loc s =
     (case series_data of
        JObj sd \<Rightarrow>
          (case map_of sd (ascii ''models'') of
             None \<Rightarrow> series_loop e brand_name ss loc s
           | Some models \<Rightarrow>
               (case items_of models of
                  Inl err \<Rightarrow> (Inl err, s)
                | Inr ms \<Rightarrow>
                    (case export_last e brand_name series_name
                            (fst loc, models_loop ms (snd loc)) s of
                       (Inl err, s1) \<Rightarrow> (Inl err, s1)
                     | (Inr loc1, s1) \<Rightarrow> series_loop e brand_name ss loc1 s1)))
      | _ \<Rightarrow> series_loop e brand_name ss loc s)"

text \<open>The loop over the brands, lines 428 to 451.\<close>

fun brands_loop :: "env \<Rightarrow> items \<Rightarrow> locals \<Rightarrow> exporter \<Rightarrow> (error + locals) \<times> exporter" where
  "brands_loop e [] loc s = (Inr loc, s)"
| "brands_loop e ((brand_name, brand_data) # bs) loc s =
     (case brand_data of
        JObj bd \<Rightarrow>
          (case map_of bd (ascii ''series'') of
             None \<Rightarrow> brands_loop e bs loc s
           | Some series \<Rightarrow>
               (case items_of series of
                  Inl err \<Rightarrow> (Inl err, s)
                | Inr ss \<Rightarrow>
                    (case series_loop e brand_name ss loc s of
                       (Inl err, s1) \<Rightarrow> (Inl err, s1)
                     | (Inr loc1, s1) \<Rightarrow> brands_loop e bs loc1 s1)))
      | _ \<Rightarrow> brands_loop e bs loc s)"

text \<open>
  \<open>export_index_html(self, specs)\<close>: every key it reads is in every entry, so only
  writing the file can fail.
\<close>

definition export_index_html :: "env \<Rightarrow> index_entry list \<Rightarrow> exporter \<Rightarrow> (error + unit) \<times> exporter" where
  "export_index_html e specs s =
     (if write_index e then (Inr (), s\<lparr>index_page := Some specs\<rparr>) else (Inl OSError, s))"

text \<open>
  \<open>export_all_specs(self)\<close>. Any exception of the \<open>try\<close> is printed and the method
  returns.
\<close>

definition export_all_specs :: "env \<Rightarrow> exporter \<Rightarrow> exporter" where
  "export_all_specs e s =
     (case catalog_file e of
        Inl err \<Rightarrow> s
      | Inr data \<Rightarrow>
          (case items_of data of
             Inl err \<Rightarrow> s
           | Inr brands \<Rightarrow>
               (case brands_loop e brands ([], None) s of
                  (Inl err, s1) \<Rightarrow> s1
                | (Inr loc, s1) \<Rightarrow> snd (export_index_html e (fst loc) s1))))"

section \<open>The operations of the exporter\<close>

text \<open>
  The methods of \<open>SpecExporter\<close> as operations on its state; \<open>perform\<close> gives the state
  a call leaves behind.
\<close>

datatype operation =
    Save_cache
  | Load_spec_data ustring
  | Translate_text ustring ustring int int
  | Batch_translate "ustring list" ustring
  | Export_spec_info ustring
  | Export_index_html "index_entry list"
  | Export_all_specs

fun perform :: "env \<Rightarrow> operation \<Rightarrow> exporter \<Rightarrow> exporter" where
  "perform e Save_cache s = save_cache s"
| "perform e (Load_spec_data spec_id) s = snd (load_spec_data e spec_id s)"
| "perform e (Translate_text t dest_lang max_retries retry_delay) s =
     snd (translate_text e t dest_lang max_retries retry_delay s)"
| "perform e (Batch_translate ts dest_lang) s = snd (batch_translate e ts dest_lang s)"
| "perform e (Export_spec_info spec_id) s = snd (export_spec_info e spec_id s)"
| "perform e (Export_index_html specs) s = snd (export_index_html e specs s)"
| "perform e Export_all_specs s = export_all_specs e s"

text \<open>
  \<open>only_translated s s'\<close>: from \<open>s\<close> to \<open>s'\<close> the translation cache has kept every entry
  it had, and nothing but translation has happened.
\<close>

definition only_translated :: "exporter \<Rightarrow> exporter \<Rightarrow> bool" where
  "only_translated s s' \<longleftrightarrow>
     cache s \<subseteq>\<^sub>m cache s' \<and> spec_data_cache s' = spec_data_cache s \<and>
     export_calls s' = export_calls s \<and> pages s' = pages s \<and> index_page s' = index_page s"

section \<open>Catalogs of the documented shape\<close>

text \<open>
  The shape section 3 of the specification gives a catalog: every brand is a dictionary
  with a dictionary of series, every series a dictionary with a dictionary of models,
  every model a dictionary whose configuration data, when present, is a dictionary of
  dictionaries. For the export, every series has at least one model and the text of
  every spec id is not empty.
\<close>

fun dict_at :: "ustring \<Rightarrow> json \<Rightarrow> items option" where
  "dict_at k (JObj d) = (case map_of d k of Some (JObj x) \<Rightarrow> Some x | _ \<Rightarrow> None)"
| "dict_at k v = None"

definition well_formed_config :: "items \<Rightarrow> bool" where
  "well_formed_config md =
     (case map_of md (ascii ''config_data'') of
        None \<Rightarrow> True
      | Some c \<Rightarrow> (case c of JObj cs \<Rightarrow> list_all (\<lambda>kv. is_dict (snd kv)) cs | _ \<Rightarrow> False))"

definition well_formed_model :: "(json \<Rightarrow> ustring) \<Rightarrow> ustring \<times> json \<Rightarrow> bool" where
  "well_formed_model rp m =
     (case snd m of
        JObj md \<Rightarrow> py_str rp (get md (ascii ''spec_id'')) \<noteq> [] \<and> well_formed_config md
      | _ \<Rightarrow> False)"

definition well_formed_series :: "(json \<Rightarrow> ustring) \<Rightarrow> ustring \<times> json \<Rightarrow> bool" where
  "well_formed_series rp sr =
     (case dict_at (ascii ''models'') (snd sr) of
        None \<Rightarrow> False
      | Some ms \<Rightarrow> ms \<noteq> [] \<and> list_all (well_formed_model rp) ms)"

definition well_formed_brand :: "(json \<Rightarrow> ustring) \<Rightarrow> ustring \<times> json \<Rightarrow> bool" where
  "well_formed_brand rp b =
     (case dict_at (ascii ''series'') (snd b) of
        None \<Rightarrow> False
      | Some ss \<Rightarrow> list_all (well_formed_series rp) ss)"

definition well_formed_catalog :: "(json \<Rightarrow> ustring) \<Rightarrow> items \<Rightarrow> bool" where
  "well_formed_catalog rp brands = list_all (well_formed_brand rp) brands"

text \<open>All the models of a catalog in document order, and the text of a model's id.\<close>

definition series_models :: "ustring \<times> json \<Rightarrow> items" where
  "series_models sr = (case dict_at (ascii ''models'') (snd sr) of None \<Rightarrow> [] | Some ms \<Rightarrow> ms)"

definition brand_series :: "ustring \<times> json \<Rightarrow> items" where
  "brand_series b = (case dict_at (ascii ''series'') (snd b) of None \<Rightarrow> [] | Some ss \<Rightarrow> ss)"

definition catalog_series :: "items \<Rightarrow> items" where
  "catalog_series brands = concat (map brand_series brands)"

definition catalog_models :: "items \<Rightarrow> items" where
  "catalog_models brands = concat (map series_models (catalog_series brands))"

definition model_id :: "(json \<Rightarrow> ustring) \<Rightarrow> ustring \<times> json \<Rightarrow> ustring option" where
  "model_id rp m =
     (case snd m of JObj md \<Rightarrow> Some (py_str rp (get md (ascii ''spec_id''))) | _ \<Rightarrow> None)"

text \<open>
  What claim C1 says the full export collects: for each series, in document order, one
  entry, made from the last model of the series.
\<close>

definition last_model_entry :: "(json \<Rightarrow> ustring) \<Rightarrow> ustring \<Rightarrow> ustring \<times> json \<Rightarrow> index_entry list" where
  "last_model_entry rp brand_name sr =
     (if series_models sr = [] then []
      else case model_id rp (last (series_models sr)) of
             None \<Rightarrow> []
           | Some spec_id \<Rightarrow>
               [\<lparr>entry_specId = spec_id, entry_specName = fst (last (series_models sr)),
                 entry_brandName = brand_name, entry_seriesName = fst sr\<rparr>])"

definition last_model_entries :: "(json \<Rightarrow> ustring) \<Rightarrow> items \<Rightarrow> index_entry list" where
  "last_model_entries rp brands =
     concat (map (\<lambda>b. concat (map (last_model_entry rp (fst b)) (brand_series b))) brands)"

section \<open>Concrete inputs\<close>

text \<open>An exporter that has done nothing yet, with an empty translation cache.\<close>

definition fresh :: exporter where
  "fresh =
     \<lparr>cache = Map.empty, spec_data_cache = Map.empty, calls = [], sleeps = [], saves = [],
      export_calls = [], pages = [], index_page = None\<rparr>"


definition echo_provider :: "nat \<Rightarrow> ustring \<Rightarrow> ustring \<Rightarrow> ustring option" where
  "echo_provider n t dest_lang = Some (dest_lang @ ascii '':'' @ t)"

text \<open>
  An exporter whose cache already holds entries, also under the keys that the empty text
  and the sentinel would have.
\<close>

definition primed :: exporter where
  "primed =
     fresh\<lparr>cache :=
       [cache_key (ascii ''hello'') (ascii ''pl'') \<mapsto> ascii ''czesc'',
        cache_key NA (ascii ''pl'') \<mapsto> ascii ''brak'',
        cache_key [] (ascii ''pl'') \<mapsto> ascii ''pusty'']\<rparr>"

text \<open>
  A catalog of one brand with one series of two models, the second with a price and
  configuration data; an environment that reads it, one whose catalog is an empty
  dictionary, and one whose catalog file cannot be read.
\<close>

definition demo_models :: items where
  "demo_models =
     [(ascii ''2023'' @ [27454] @ ascii '' Base'', JObj [(ascii ''spec_id'', JInt 1)]),
      (ascii ''2024'' @ [27454] @ ascii '' Pro'',
       JObj [(ascii ''spec_id'', JInt 2),
             (ascii ''price'', JFloat (ascii ''12.98'')),
             (ascii ''config_data'',
              JObj [(ascii ''Body'', JObj [(ascii ''Doors'', JInt 4)])])])]"

definition demo_brands :: items where
  "demo_brands =
     [(ascii ''BrandA'',
       JObj [(ascii ''manufacturer_name'', JStr (ascii ''MakerA'')),
             (ascii ''series'', JObj [(ascii ''S1'', JObj [(ascii ''models'', JObj demo_models)])])])]"

definition demo_env :: env where
  "demo_env =
     \<lparr>provider = echo_provider, catalog_file = Inr (JObj demo_brands), cache_file = None,
      py_repr = (\<lambda>v. ascii ''{}''), list_images = (\<lambda>spec_id. Inr []),
      write_page = (\<lambda>spec_id. True), write_index = True, sleep_error = (\<lambda>secs. None)\<rparr>"


definition empty_env :: env where
  "empty_env = demo_env\<lparr>catalog_file := Inr (JObj [])\<rparr>"

definition unreadable_env :: env where
  "unreadable_env = demo_env\<lparr>catalog_file := Inl DataError\<rparr>"

section \<open>Retry exhaustion\<close>






section \<open>No attempt at all\<close>

text \<open>
  C9: for a non-empty, non-sentinel, uncached text and \<open>max_retries \<le> 0\<close> the body of the
  retry loop never runs (the state is untouched: no provider call, no sleep, no save) and
  \<open>translate_text\<close> returns \<open>None\<close>, not the original text.
\<close>

theorem translate_text_no_attempts:
  assumes "t \<noteq> []" and "t \<noteq> NA" and "cache s (cache_key t d) = None" and "max_retries \<le> 0"
  shows "translate_text e t d max_retries retry_delay s = (None, s)"
  using assms by (simp add: translate_text_def retry_loop.simps)

theorem translate_text_no_attempts_witness:
  "translate_text demo_env (ascii ''hello'') (ascii ''pl'') 0 1 fresh = (None, fresh)"
  using translate_text_no_attempts [where t="ascii ''hello''" and s=fresh and d="ascii ''pl''"
          and max_retries=0 and e=demo_env and retry_delay=1]
  by (simp add: ascii_def NA_def fresh_def)

section \<open>Empty text and sentinel\<close>

text \<open>
  C6: for a text that is empty or the sentinel \<open>'N/A'\<close>, and any destination language,
  \<open>translate_text\<close> returns the text unchanged and leaves the state as it was, whatever
  the cache holds and whatever the provider would answer: no provider call is made and
  the cache is not consulted.
\<close>

theorem translate_text_sentinel:
  assumes "t = [] \<or> t = NA"
  shows "translate_text e t d max_retries retry_delay s = (Some t, s)"
  using assms by (auto simp add: translate_text_def)

theorem translate_text_sentinel_witness:
  "translate_text demo_env NA (ascii ''pl'') 3 1 primed = (Some NA, primed) \<and>
   cache primed (cache_key NA (ascii ''pl'')) = Some (ascii ''brak'')"
  using translate_text_sentinel [where t=NA and e=demo_env and d="ascii ''pl''"
          and max_retries=3 and retry_delay=1 and s=primed]
  by (simp add: primed_def cache_key_def NA_def ascii_def)

section \<open>What a translation changes\<close>

text \<open>
  One attempt either fails and leaves cache and saves alone, or stores the translation
  under the key and saves the new cache.
\<close>

lemma attempt_body_effect:
  "case attempt_body e t d retry_delay attempt s of
     (Inl err, s') \<Rightarrow>
        cache s' = cache s \<and> saves s' = saves s \<and> spec_data_cache s' = spec_data_cache s \<and>
        export_calls s' = export_calls s \<and> pages s' = pages s \<and> index_page s' = index_page s
   | (Inr v, s') \<Rightarrow>
        cache s' = (cache s)(cache_key t d \<mapsto> v) \<and> saves s' = saves s @ [cache s'] \<and>
        spec_data_cache s' = spec_data_cache s \<and>
        export_calls s' = export_calls s \<and> pages s' = pages s \<and> index_page s' = index_page s"
  by (simp add: attempt_body_def Let_def save_cache_def split: option.split)

lemma retry_loop_effect:
  "case retry_loop e t d max_retries retry_delay attempt s of
     (r, s') \<Rightarrow>
       spec_data_cache s' = spec_data_cache s \<and> export_calls s' = export_calls s \<and>
       pages s' = pages s \<and> index_page s' = index_page s \<and>
       ((cache s' = cache s \<and> saves s' = saves s \<and> (r = None \<or> r = Some t)) \<or>
        (\<exists>v. r = Some v \<and> cache s' = (cache s)(cache_key t d \<mapsto> v) \<and>
             saves s' = saves s @ [cache s']))"
proof (induction e t d max_retries retry_delay attempt s rule: retry_loop.induct)
  case (1 e t d max_retries retry_delay attempt s)
  show ?case
  proof (cases "attempt < max_retries")
    case False
    then show ?thesis by (subst retry_loop.simps) simp
  next
    case True
    obtain r s1 where body: "attempt_body e t d retry_delay attempt s = (r, s1)"
      by (cases "attempt_body e t d retry_delay attempt s")
    have eff: "case (r, s1) of
     (Inl err, s') \<Rightarrow>
        cache s' = cache s \<and> saves s' = saves s \<and> spec_data_cache s' = spec_data_cache s \<and>
        export_calls s' = export_calls s \<and> pages s' = pages s \<and> index_page s' = index_page s
   | (Inr v, s') \<Rightarrow>
        cache s' = (cache s)(cache_key t d \<mapsto> v) \<and> saves s' = saves s @ [cache s'] \<and>
        spec_data_cache s' = spec_data_cache s \<and>
        export_calls s' = export_calls s \<and> pages s' = pages s \<and> index_page s' = index_page s"
      using attempt_body_effect[where e=e and t=t and d=d and retry_delay=retry_delay and attempt=attempt and s=s] body by simp
    show ?thesis
    proof (cases r)
      case (Inr v)
      then show ?thesis using True body eff by (subst retry_loop.simps) simp
    next
      case (Inl err)
      show ?thesis
      proof (cases "attempt = max_retries - 1")
        case True
        then show ?thesis using \<open>attempt < max_retries\<close> body eff Inl
          by (subst retry_loop.simps) simp
      next
        case False
        have step: "retry_loop e t d max_retries retry_delay attempt s =
              retry_loop e t d max_retries retry_delay (attempt + 1) s1"
          using False True body Inl by (subst retry_loop.simps) simp
        have e: "cache s1 = cache s" "saves s1 = saves s"
          "spec_data_cache s1 = spec_data_cache s" "export_calls s1 = export_calls s"
          "pages s1 = pages s" "index_page s1 = index_page s"
          using eff Inl by simp_all
        show ?thesis
          using "1.IH"[OF True body[symmetric] Inl False]
          unfolding step by (simp add: e)
      qed
    qed
  qed
qed

lemma translate_text_effect:
  "case translate_text e t d max_retries retry_delay s of
     (r, s') \<Rightarrow>
       spec_data_cache s' = spec_data_cache s \<and> export_calls s' = export_calls s \<and>
       pages s' = pages s \<and> index_page s' = index_page s \<and>
       ((cache s' = cache s \<and> saves s' = saves s) \<or>
        (\<exists>v. cache s (cache_key t d) = None \<and> r = Some v \<and>
             cache s' = (cache s)(cache_key t d \<mapsto> v) \<and> saves s' = saves s @ [cache s']))"
proof (cases "t = [] \<or> t = NA \<or> cache s (cache_key t d) \<noteq> None")
  case True
  then show ?thesis by (auto simp add: translate_text_def)
next
  case False
  then have "translate_text e t d max_retries retry_delay s =
             retry_loop e t d max_retries retry_delay 0 s"
    by (simp add: translate_text_def)
  then show ?thesis
    using retry_loop_effect[where e=e and t=t and d=d and max_retries=max_retries and retry_delay=retry_delay and attempt=0 and s=s] False
    by (auto split: prod.splits)
qed

text \<open>
  C10: on a cache hit, and for an empty or sentinel text, \<open>translate_text\<close> leaves the
  whole state as it was, so the cache is unchanged and \<open>_save_cache\<close> is not invoked. In
  every call, either cache and saves are unchanged, or the key was absent, one new
  translation was inserted under it and \<open>_save_cache\<close> was invoked once, with the cache
  that holds the new entry.
\<close>

theorem translate_text_frame:
  "(t = [] \<or> t = NA \<or> cache s (cache_key t d) \<noteq> None \<longrightarrow>
      snd (translate_text e t d max_retries retry_delay s) = s) \<and>
   ((cache (snd (translate_text e t d max_retries retry_delay s)) = cache s \<and>
     saves (snd (translate_text e t d max_retries retry_delay s)) = saves s) \<or>
    (\<exists>v. cache s (cache_key t d) = None \<and>
         fst (translate_text e t d max_retries retry_delay s) = Some v \<and>
         cache (snd (translate_text e t d max_retries retry_delay s)) =
           (cache s)(cache_key t d \<mapsto> v) \<and>
         saves (snd (translate_text e t d max_retries retry_delay s)) =
           saves s @ [(cache s)(cache_key t d \<mapsto> v)]))"
proof
  show "t = [] \<or> t = NA \<or> cache s (cache_key t d) \<noteq> None \<longrightarrow>
      snd (translate_text e t d max_retries retry_delay s) = s"
    by (auto simp add: translate_text_def)
next
  show "(cache (snd (translate_text e t d max_retries retry_delay s)) = cache s \<and>
     saves (snd (translate_text e t d max_retries retry_delay s)) = saves s) \<or>
    (\<exists>v. cache s (cache_key t d) = None \<and>
         fst (translate_text e t d max_retries retry_delay s) = Some v \<and>
         cache (snd (translate_text e t d max_retries retry_delay s)) =
           (cache s)(cache_key t d \<mapsto> v) \<and>
         saves (snd (translate_text e t d max_retries retry_delay s)) =
           saves s @ [(cache s)(cache_key t d \<mapsto> v)])"
    using translate_text_effect[where e=e and t=t and d=d and max_retries=max_retries and retry_delay=retry_delay and s=s]
    by (auto split: prod.splits)
qed

theorem translate_text_frame_witness:
  "snd (translate_text demo_env (ascii ''hello'') (ascii ''pl'') 3 1 primed) = primed"
  using translate_text_frame [where t="ascii ''hello''" and s=primed and d="ascii ''pl''"
          and e=demo_env and max_retries=3 and retry_delay=1]
  by (simp add: primed_def cache_key_def NA_def ascii_def)

section \<open>Translations keep the cache entries\<close>

lemma only_translated_refl: "only_translated s s"
  by (simp add: only_translated_def)

lemma only_translated_trans:
  "only_translated s s1 \<Longrightarrow> only_translated s1 s2 \<Longrightarrow> only_translated s s2"
  by (auto simp add: only_translated_def intro: map_le_trans)

lemma translate_text_only_translated:
  "only_translated s (snd (translate_text e t d max_retries retry_delay s))"
  using translate_text_effect[where e=e and t=t and d=d and max_retries=max_retries and retry_delay=retry_delay and s=s]
  by (auto simp add: only_translated_def map_le_def split: prod.splits)

lemma batch_translate_only_translated:
  "only_translated s (snd (batch_translate e ts d s))"
proof (induction ts arbitrary: s)
  case Nil
  show ?case by (simp add: only_translated_refl)
next
  case (Cons t ts)
  obtain r s1 where a: "translate_text e t d 3 1 s = (r, s1)"
    by (cases "translate_text e t d 3 1 s")
  have "only_translated s s1"
    using translate_text_only_translated[where s=s and e=e and t=t and d=d and max_retries=3 and retry_delay=1] a by simp
  moreover have "only_translated s1 (snd (batch_translate e ts d s1))"
    by (rule Cons.IH)
  ultimately show ?case
    using a by (auto split: prod.splits intro: only_translated_trans)
qed

section \<open>Translating the same text twice\<close>

lemma retry_loop_first_success:
  assumes "provider e (length (calls s)) t d = Some v" and "0 < max_retries"
  shows "retry_loop e t d max_retries retry_delay 0 s =
     (Some v, s\<lparr>cache := (cache s)(cache_key t d \<mapsto> v), calls := calls s @ [(t, d)],
                 saves := saves s @ [(cache s)(cache_key t d \<mapsto> v)]\<rparr>)"
  using assms
  by (subst retry_loop.simps) (simp add: attempt_body_def save_cache_def)

text \<open>
  C4: for a non-empty, non-sentinel text \<open>t\<close> and a language \<open>d\<close>, if the provider
  answers its next invocation, two calls of \<open>translate_text\<close> in a row return the same
  result, the second call invokes the provider not at all, and the first at most once,
  for \<open>(t, d)\<close>. When an attempt is allowed or the key was cached before, the result is
  a text and the second call finds it in the cache.
\<close>

theorem translate_text_twice:
  assumes "t \<noteq> []" and "t \<noteq> NA" and "provider e (length (calls s)) t d \<noteq> None"
  shows "fst (translate_text e t d max_retries retry_delay
                (snd (translate_text e t d max_retries retry_delay s))) =
           fst (translate_text e t d max_retries retry_delay s) \<and>
         calls (snd (translate_text e t d max_retries retry_delay
                (snd (translate_text e t d max_retries retry_delay s)))) =
           calls (snd (translate_text e t d max_retries retry_delay s)) \<and>
         (calls (snd (translate_text e t d max_retries retry_delay s)) = calls s \<or>
          calls (snd (translate_text e t d max_retries retry_delay s)) = calls s @ [(t, d)]) \<and>
         (0 < max_retries \<or> cache s (cache_key t d) \<noteq> None \<longrightarrow>
            fst (translate_text e t d max_retries retry_delay s) \<noteq> None \<and>
            cache (snd (translate_text e t d max_retries retry_delay s)) (cache_key t d) =
              fst (translate_text e t d max_retries retry_delay s))"
proof (cases "cache s (cache_key t d)")
  case (Some c)
  then show ?thesis using assms by (simp add: translate_text_def)
next
  case None
  show ?thesis
  proof (cases "0 < max_retries")
    case False
    then have "translate_text e t d max_retries retry_delay s = (None, s)"
      using None assms by (simp add: translate_text_def retry_loop.simps)
    then show ?thesis using False None by simp
  next
    case True
    obtain v where v: "provider e (length (calls s)) t d = Some v" using assms by auto
    have "translate_text e t d max_retries retry_delay s =
       (Some v, s\<lparr>cache := (cache s)(cache_key t d \<mapsto> v), calls := calls s @ [(t, d)],
                 saves := saves s @ [(cache s)(cache_key t d \<mapsto> v)]\<rparr>)"
      using None assms v True
        retry_loop_first_success[where e=e and s=s and t=t and d=d and v=v
          and max_retries=max_retries and retry_delay=retry_delay]
      by (simp add: translate_text_def)
    then show ?thesis using assms by (simp add: translate_text_def)
  qed
qed

theorem translate_text_twice_witness:
  "fst (translate_text demo_env (ascii ''hello'') (ascii ''pl'') 3 1
          (snd (translate_text demo_env (ascii ''hello'') (ascii ''pl'') 3 1 fresh))) =
     fst (translate_text demo_env (ascii ''hello'') (ascii ''pl'') 3 1 fresh) \<and>
   calls (snd (translate_text demo_env (ascii ''hello'') (ascii ''pl'') 3 1
          (snd (translate_text demo_env (ascii ''hello'') (ascii ''pl'') 3 1 fresh)))) =
     calls (snd (translate_text demo_env (ascii ''hello'') (ascii ''pl'') 3 1 fresh)) \<and>
   fst (translate_text demo_env (ascii ''hello'') (ascii ''pl'') 3 1 fresh) \<noteq> None \<and>
   cache (snd (translate_text demo_env (ascii ''hello'') (ascii ''pl'') 3 1 fresh))
       (cache_key (ascii ''hello'') (ascii ''pl'')) =
     fst (translate_text demo_env (ascii ''hello'') (ascii ''pl'') 3 1 fresh)"
  using translate_text_twice [where t="ascii ''hello''" and s=fresh and d="ascii ''pl''"
          and e=demo_env and max_retries=3 and retry_delay=1]
  by (simp add: ascii_def NA_def demo_env_def echo_provider_def)

section \<open>The translations of one export\<close>

lemma translate_params_only_translated:
  "only_translated s (snd (translate_params e params info s))"
proof (induction params arbitrary: info s)
  case Nil
  show ?case by (simp add: only_translated_refl)
next
  case (Cons p params)
  obtain name val where p: "p = (name, val)" by (cases p)
  show ?case
  proof (cases "split_once 45 name")
    case None
    then show ?thesis by (simp add: p only_translated_refl)
  next
    case (Some ab)
    obtain param_type param_name where ab: "ab = (param_type, param_name)" by (cases ab)
    obtain r1 s1 where a1: "translate_text e param_name (ascii ''pl'') 3 1 s = (r1, s1)"
      by (cases "translate_text e param_name (ascii ''pl'') 3 1 s")
    obtain r2 s2 where a2: "translate_text e val (ascii ''pl'') 3 1 s1 = (r2, s2)"
      by (cases "translate_text e val (ascii ''pl'') 3 1 s1")
    have "only_translated s s1"
      using translate_text_only_translated[where s=s and e=e and t=param_name
          and d="ascii ''pl''" and max_retries=3 and retry_delay=1] a1 by simp
    moreover have "only_translated s1 s2"
      using translate_text_only_translated[where s=s1 and e=e and t=val
          and d="ascii ''pl''" and max_retries=3 and retry_delay=1] a2 by simp
    ultimately have "only_translated s s2" by (rule only_translated_trans)
    then show ?thesis
      using Some ab a1 a2 Cons.IH[of s2] p
      by (auto simp add: Let_def intro: only_translated_trans)
  qed
qed

lemma translate_categories_only_translated:
  "only_translated s (snd (translate_categories e info s))"
proof (induction info arbitrary: s)
  case Nil
  show ?case by (simp add: only_translated_refl)
next
  case (Cons c info)
  obtain category params where c: "c = (category, params)" by (cases c)
  obtain r s1 where a: "translate_text e category (ascii ''pl'') 3 1 s = (r, s1)"
    by (cases "translate_text e category (ascii ''pl'') 3 1 s")
  have "only_translated s s1"
    using translate_text_only_translated[where s=s and e=e and t=category
        and d="ascii ''pl''" and max_retries=3 and retry_delay=1] a by simp
  moreover have "only_translated s1 (snd (translate_categories e info s1))"
    by (rule Cons.IH)
  ultimately show ?case
    using a c by (auto split: prod.splits intro: only_translated_trans)
qed

lemma translate_spec_only_translated:
  "only_translated s (snd (translate_spec e spec s))"
proof -
  obtain items_pl s1 where a1: "batch_translate e base_items (ascii ''pl'') s = (items_pl, s1)"
    by (cases "batch_translate e base_items (ascii ''pl'') s")
  obtain values_pl s2 where a2:
    "batch_translate e (map (py_str (py_repr e)) (base_values spec)) (ascii ''pl'') s1
       = (values_pl, s2)"
    by (cases "batch_translate e (map (py_str (py_repr e)) (base_values spec)) (ascii ''pl'') s1")
  have "only_translated s s1"
    using batch_translate_only_translated[where s=s and e=e and ts=base_items
        and d="ascii ''pl''"] a1 by simp
  moreover have "only_translated s1 s2"
    using batch_translate_only_translated[where s=s1 and e=e
        and ts="map (py_str (py_repr e)) (base_values spec)" and d="ascii ''pl''"] a2 by simp
  ultimately have s2: "only_translated s s2" by (rule only_translated_trans)
  show ?thesis
  proof (cases "paramValues spec")
    case None
    then show ?thesis using a1 a2 s2 by (simp add: translate_spec_def)
  next
    case (Some params)
    have "only_translated s2 (snd (translate_params e params
             [(basic_info, zip items_pl values_pl)] s2))"
      by (rule translate_params_only_translated)
    then show ?thesis
      using a1 a2 s2 Some by (auto simp add: translate_spec_def intro: only_translated_trans)
  qed
qed

section \<open>The year type\<close>

lemma split_on_first:
  "c \<notin> set pre \<Longrightarrow> split_on c (pre @ c # rest) = pre # split_on c rest"
  by (induction pre) auto

text \<open>
  C7: when the model name contains the delimiter, the year type is the part of the name
  before its first occurrence (\<open>pre\<close>, in which the delimiter does not occur); when the
  name does not contain it, the year type is the sentinel \<open>'N/A'\<close>. This is the value
  of \<open>yearType\<close> in the record that \<open>load_spec_data\<close> builds.
\<close>

theorem year_type_delimiter:
  "(name = pre @ year_delimiter # rest \<and> year_delimiter \<notin> set pre \<longrightarrow>
        year_type name = Inr pre) \<and>
   (year_delimiter \<notin> set name \<longrightarrow> year_type name = Inr NA) \<and>
   (build_spec rp brand_name brand_data series_name name model_data = Inr spec \<longrightarrow>
        year_type name = Inr (yearType spec))"
proof (intro conjI impI)
  assume "name = pre @ year_delimiter # rest \<and> year_delimiter \<notin> set pre"
  then show "year_type name = Inr pre"
    by (simp add: year_type_def split_on_first first_item_def)
next
  assume "year_delimiter \<notin> set name"
  then show "year_type name = Inr NA" by (simp add: year_type_def)
next
  assume "build_spec rp brand_name brand_data series_name name model_data = Inr spec"
  then show "year_type name = Inr (yearType spec)"
    by (auto simp add: build_spec_def Let_def split: sum.splits option.splits)
qed

theorem year_type_delimiter_witness:
  "year_type (ascii ''2024'' @ [27454] @ ascii '' Pro'') = Inr (ascii ''2024'') \<and>
   year_type (ascii ''Pro'') = Inr NA \<and>
   build_spec (py_repr demo_env) (ascii ''BrandA'') [] (ascii ''S1'')
       (ascii ''2024'' @ [27454] @ ascii '' Pro'') [(ascii ''spec_id'', JInt 2)] =
     Inr \<lparr>specId = JInt 2, specName = ascii ''2024'' @ [27454] @ ascii '' Pro'',
          brandName = ascii ''BrandA'', seriesName = ascii ''S1'',
          manufacturerName = JStr NA, yearType = ascii ''2024'', price = JStr NA,
          paramValues = None\<rparr>"
  using year_type_delimiter [where name="ascii ''2024'' @ [27454] @ ascii '' Pro''"
          and pre="ascii ''2024''" and rest="ascii '' Pro''" and rp="py_repr demo_env"
          and brand_name="ascii ''BrandA''" and brand_data="[]" and series_name="ascii ''S1''"
          and model_data="[(ascii ''spec_id'', JInt 2)]"
          and spec="\<lparr>specId = JInt 2, specName = ascii ''2024'' @ [27454] @ ascii '' Pro'',
              brandName = ascii ''BrandA'', seriesName = ascii ''S1'',
              manufacturerName = JStr NA, yearType = ascii ''2024'', price = JStr NA,
              paramValues = None\<rparr>"]
        year_type_delimiter [where name="ascii ''Pro''"]
  by (simp add: ascii_def year_delimiter_def build_spec_def year_type_def first_item_def
        get_def get_default_def NA_def)

section \<open>A catalog that cannot be read\<close>

lemma scan_catalog_unreadable:
  "catalog_file e = Inl err \<Longrightarrow> scan_catalog e spec_id = Inl err"
  by (simp add: scan_catalog_def)

text \<open>
  C8: \<open>load_spec_data\<close> never lets an exception out. For an id that is not memoised, an
  error of reading or parsing the catalog file, like any other exception of the \<open>try\<close>,
  gives \<open>None\<close> with the state unchanged, which is also what an id without a match
  gives.
\<close>

theorem load_spec_data_never_raises:
  "(\<forall>err. fst (load_spec_data e spec_id s) \<noteq> Inl err) \<and>
   (spec_data_cache s spec_id = None \<and>
    ((\<exists>err. catalog_file e = Inl err) \<or> (\<exists>err. scan_catalog e spec_id = Inl err) \<or>
     scan_catalog e spec_id = Inr None) \<longrightarrow>
      load_spec_data e spec_id s = (Inr None, s))"
  by (auto simp add: load_spec_data_def scan_catalog_unreadable
           split: option.splits sum.splits)

theorem load_spec_data_never_raises_witness:
  "load_spec_data unreadable_env (ascii ''1'') fresh = (Inr None, fresh) \<and>
   load_spec_data empty_env (ascii ''1'') fresh = (Inr None, fresh)"
  using load_spec_data_never_raises [where e=unreadable_env and spec_id="ascii ''1''" and s=fresh]
        load_spec_data_never_raises [where e=empty_env and spec_id="ascii ''1''" and s=fresh]
  by (simp add: unreadable_env_def empty_env_def demo_env_def fresh_def scan_catalog_def)

text \<open>
  C3, as stated, fails: with a catalog file that cannot be read, \<open>load_spec_data\<close> does
  not fail with an error but returns \<open>None\<close>, the value it returns for a readable
  catalog without the id.
\<close>

theorem load_spec_data_unreadable_counterexample:
  "catalog_file unreadable_env = Inl DataError \<and>
   fst (load_spec_data unreadable_env (ascii ''1'') fresh) = Inr None \<and>
   fst (load_spec_data empty_env (ascii ''1'') fresh) = Inr None"
  by (simp add: load_spec_data_def scan_catalog_def unreadable_env_def empty_env_def
        demo_env_def fresh_def)

text \<open>
  C3, amended: when the catalog file cannot be read or parsed and the id is not
  memoised, \<open>load_spec_data\<close> returns \<open>None\<close> and leaves the state as it was (no partial
  result), and its caller \<open>export_spec_info\<close> gives up that one export: it returns
  without a translation and without a page.
\<close>

theorem load_spec_data_unreadable:
  assumes "catalog_file e = Inl err" and "spec_data_cache s spec_id = None"
  shows "load_spec_data e spec_id s = (Inr None, s) \<and>
         export_spec_info e spec_id s = (Inr (), s\<lparr>export_calls := export_calls s @ [spec_id]\<rparr>)"
  using assms
  by (simp add: load_spec_data_def scan_catalog_def export_spec_info_def)

theorem load_spec_data_unreadable_witness:
  "load_spec_data unreadable_env (ascii ''2'') fresh = (Inr None, fresh) \<and>
   export_spec_info unreadable_env (ascii ''2'') fresh =
     (Inr (), fresh\<lparr>export_calls := export_calls fresh @ [ascii ''2'']\<rparr>)"
  using load_spec_data_unreadable [where e=unreadable_env and err=DataError
          and spec_id="ascii ''2''" and s=fresh]
  by (simp add: unreadable_env_def demo_env_def fresh_def)

section \<open>What one export changes\<close>

lemma load_spec_data_effect:
  "\<exists>c. snd (load_spec_data e spec_id s) = s\<lparr>spec_data_cache := c\<rparr>"
proof (cases "spec_data_cache s spec_id")
  case (Some spec)
  then have "snd (load_spec_data e spec_id s) = s\<lparr>spec_data_cache := spec_data_cache s\<rparr>"
    by (simp add: load_spec_data_def)
  then show ?thesis by blast
next
  case None
  show ?thesis
  proof (cases "scan_catalog e spec_id")
    case (Inl err)
    then have "snd (load_spec_data e spec_id s) = s\<lparr>spec_data_cache := spec_data_cache s\<rparr>"
      using None by (simp add: load_spec_data_def)
    then show ?thesis by blast
  next
    case (Inr r)
    show ?thesis
    proof (cases r)
      case None
      then have "snd (load_spec_data e spec_id s) = s\<lparr>spec_data_cache := spec_data_cache s\<rparr>"
        using Inr \<open>spec_data_cache s spec_id = None\<close> by (simp add: load_spec_data_def)
      then show ?thesis by blast
    next
      case (Some spec)
      then have "snd (load_spec_data e spec_id s) =
          s\<lparr>spec_data_cache := (spec_data_cache s)(spec_id \<mapsto> spec)\<rparr>"
        using Inr \<open>spec_data_cache s spec_id = None\<close> by (simp add: load_spec_data_def)
      then show ?thesis by blast
    qed
  qed
qed

lemma load_spec_data_returns: "\<exists>r. fst (load_spec_data e spec_id s) = Inr r"
  by (auto simp add: load_spec_data_def split: option.splits sum.splits)

lemma export_spec_info_effect:
  "cache s \<subseteq>\<^sub>m cache (snd (export_spec_info e spec_id s)) \<and>
   export_calls (snd (export_spec_info e spec_id s)) = export_calls s @ [spec_id]"
proof -
  let ?s0 = "s\<lparr>export_calls := export_calls s @ [spec_id]\<rparr>"
  obtain r s1 where l: "load_spec_data e spec_id ?s0 = (r, s1)"
    by (cases "load_spec_data e spec_id ?s0")
  obtain c where c: "s1 = ?s0\<lparr>spec_data_cache := c\<rparr>"
    using load_spec_data_effect[where e=e and spec_id=spec_id and s="?s0"] l by auto
  have s1: "cache s1 = cache s" "export_calls s1 = export_calls s @ [spec_id]"
    using c by simp_all
  obtain r' where r': "r = Inr r'"
    using load_spec_data_returns[where e=e and spec_id=spec_id and s="?s0"] l by auto
  show ?thesis
  proof (cases r')
    case None
    then show ?thesis using l r' s1 by (simp add: export_spec_info_def)
  next
    case (Some spec)
    obtain q s2 where t: "translate_spec e spec s1 = (q, s2)"
      by (cases "translate_spec e spec s1")
    have o2: "only_translated s1 s2"
      using translate_spec_only_translated[where s=s1 and e=e and spec=spec] t by simp
    then have s2: "cache s \<subseteq>\<^sub>m cache s2" "export_calls s2 = export_calls s @ [spec_id]"
      using s1 by (simp_all add: only_translated_def)
    show ?thesis
    proof (cases q)
      case (Inl err)
      then show ?thesis using l r' Some t s2 by (simp add: export_spec_info_def)
    next
      case (Inr info)
      show ?thesis
      proof (cases "list_images e spec_id")
        case (Inl err)
        then show ?thesis using l r' Some t s2 Inr by (simp add: export_spec_info_def)
      next
        case (Inr car_images)
        obtain tables s3 where k: "translate_categories e info s2 = (tables, s3)"
          by (cases "translate_categories e info s2")
        have "only_translated s2 s3"
          using translate_categories_only_translated[where s=s2 and e=e
              and info=info] k by simp
        then have s3: "cache s \<subseteq>\<^sub>m cache s3" "export_calls s3 = export_calls s @ [spec_id]"
          using s2 by (auto simp add: only_translated_def intro: map_le_trans)
        show ?thesis
          using l r' Some t \<open>q = Inr info\<close> Inr k s3
          by (simp add: export_spec_info_def)
      qed
    qed
  qed
qed

lemma export_spec_info_returns:
  assumes "\<forall>i. \<exists>imgs. list_images e i = Inr imgs" and "\<forall>i. write_page e i"
  shows "fst (export_spec_info e spec_id s) = Inr ()"
proof -
  obtain imgs where "list_images e spec_id = Inr imgs" using assms by blast
  moreover obtain r where
    "fst (load_spec_data e spec_id (s\<lparr>export_calls := export_calls s @ [spec_id]\<rparr>)) = Inr r"
    using load_spec_data_returns by blast
  ultimately show ?thesis
    using assms
    by (auto simp add: export_spec_info_def split: prod.splits sum.splits option.splits)
qed

section \<open>The cache invariant\<close>

lemma export_last_cache:
  "cache s \<subseteq>\<^sub>m cache (snd (export_last e brand_name series_name loc s))"
proof (cases "snd loc")
  case None
  then show ?thesis by (simp add: export_last_def)
next
  case (Some m)
  obtain model_name model_data where m: "m = (model_name, model_data)" by (cases m)
  show ?thesis
  proof (cases model_data)
    case (JObj md)
    show ?thesis
      using Some m JObj
        export_spec_info_effect[where s=s and e=e
          and spec_id="py_str (py_repr e) (get md (ascii ''spec_id''))"]
      by (auto simp add: export_last_def Let_def split: prod.splits sum.splits)
  qed (use Some m in \<open>simp_all add: export_last_def\<close>)
qed

lemma series_loop_cache:
  "cache s \<subseteq>\<^sub>m cache (snd (series_loop e brand_name ss loc s))"
proof (induction ss arbitrary: loc s)
  case Nil
  show ?case by simp
next
  case (Cons sr ss)
  obtain series_name series_data where sr: "sr = (series_name, series_data)" by (cases sr)
  show ?case
  proof (cases series_data)
    case (JObj sd)
    show ?thesis
    proof (cases "map_of sd (ascii ''models'')")
      case None
      then show ?thesis using sr JObj Cons.IH by simp
    next
      case (Some models)
      show ?thesis
      proof (cases "items_of models")
        case (Inl err)
        then show ?thesis using sr JObj Some by simp
      next
        case (Inr ms)
        obtain r s1 where x:
          "export_last e brand_name series_name (fst loc, models_loop ms (snd loc)) s = (r, s1)"
          by (cases "export_last e brand_name series_name (fst loc, models_loop ms (snd loc)) s")
        have s1: "cache s \<subseteq>\<^sub>m cache s1"
          using export_last_cache[where s=s and e=e and brand_name=brand_name
              and series_name=series_name and loc="(fst loc, models_loop ms (snd loc))"] x
          by simp
        show ?thesis
        proof (cases r)
          case (Inl err)
          then show ?thesis using sr JObj Some Inr x s1 by simp
        next
          case r: (Inr loc1)
          have "cache s1 \<subseteq>\<^sub>m cache (snd (series_loop e brand_name ss loc1 s1))"
            by (rule Cons.IH)
          then have "cache s \<subseteq>\<^sub>m cache (snd (series_loop e brand_name ss loc1 s1))"
            using s1 by (rule map_le_trans[rotated])
          then show ?thesis using sr JObj Some Inr x r by simp
        qed
      qed
    qed
  qed (use sr Cons.IH in simp_all)
qed

lemma brands_loop_cache:
  "cache s \<subseteq>\<^sub>m cache (snd (brands_loop e bs loc s))"
proof (induction bs arbitrary: loc s)
  case Nil
  show ?case by simp
next
  case (Cons b bs)
  obtain brand_name brand_data where b: "b = (brand_name, brand_data)" by (cases b)
  show ?case
  proof (cases brand_data)
    case (JObj bd)
    show ?thesis
    proof (cases "map_of bd (ascii ''series'')")
      case None
      then show ?thesis using b JObj Cons.IH by simp
    next
      case (Some series)
      show ?thesis
      proof (cases "items_of series")
        case (Inl err)
        then show ?thesis using b JObj Some by simp
      next
        case (Inr ss)
        obtain r s1 where x: "series_loop e brand_name ss loc s = (r, s1)"
          by (cases "series_loop e brand_name ss loc s")
        have s1: "cache s \<subseteq>\<^sub>m cache s1"
          using series_loop_cache[where s=s and e=e and brand_name=brand_name and ss=ss
              and loc=loc] x by simp
        show ?thesis
        proof (cases r)
          case (Inl err)
          then show ?thesis using b JObj Some Inr x s1 by simp
        next
          case r: (Inr loc1)
          have "cache s1 \<subseteq>\<^sub>m cache (snd (brands_loop e bs loc1 s1))"
            by (rule Cons.IH)
          then have "cache s \<subseteq>\<^sub>m cache (snd (brands_loop e bs loc1 s1))"
            using s1 by (rule map_le_trans[rotated])
          then show ?thesis using b JObj Some Inr x r by simp
        qed
      qed
    qed
  qed (use b Cons.IH in simp_all)
qed

lemma export_all_specs_cache:
  "cache s \<subseteq>\<^sub>m cache (export_all_specs e s)"
proof (cases "catalog_file e")
  case (Inl err)
  then show ?thesis by (simp add: export_all_specs_def)
next
  case (Inr data)
  show ?thesis
  proof (cases "items_of data")
    case (Inl err)
    then show ?thesis using Inr by (simp add: export_all_specs_def)
  next
    case b: (Inr brands)
    obtain r s1 where x: "brands_loop e brands ([], None) s = (r, s1)"
      by (cases "brands_loop e brands ([], None) s")
    have "cache s \<subseteq>\<^sub>m cache s1"
      using brands_loop_cache[where s=s and e=e and bs=brands and loc="([], None)"] x by simp
    then show ?thesis
      using Inr b x by (cases r) (simp_all add: export_all_specs_def export_index_html_def)
  qed
qed

lemma perform_cache: "cache s \<subseteq>\<^sub>m cache (perform e op s)"
proof (cases op)
  case Save_cache
  then show ?thesis by (simp add: save_cache_def)
next
  case (Load_spec_data spec_id)
  obtain c where "snd (load_spec_data e spec_id s) = s\<lparr>spec_data_cache := c\<rparr>"
    using load_spec_data_effect by blast
  then show ?thesis using Load_spec_data by simp
next
  case (Translate_text t d m r)
  then show ?thesis
    using translate_text_only_translated[where s=s and e=e and t=t and d=d
        and max_retries=m and retry_delay=r]
    by (simp add: only_translated_def)
next
  case (Batch_translate ts d)
  then show ?thesis
    using batch_translate_only_translated[where s=s and e=e and ts=ts and d=d]
    by (simp add: only_translated_def)
next
  case (Export_spec_info spec_id)
  then show ?thesis
    using export_spec_info_effect[where s=s and e=e and spec_id=spec_id] by simp
next
  case (Export_index_html specs)
  then show ?thesis by (simp add: export_index_html_def)
next
  case Export_all_specs
  then show ?thesis using export_all_specs_cache[where s=s and e=e] by simp
qed

lemma fold_perform_cache: "cache s \<subseteq>\<^sub>m cache (fold (perform e) ops s)"
proof (induction ops arbitrary: s)
  case Nil
  show ?case by simp
next
  case (Cons op ops)
  have "cache s \<subseteq>\<^sub>m cache (perform e op s)" by (rule perform_cache)
  moreover have "cache (perform e op s) \<subseteq>\<^sub>m cache (fold (perform e) ops (perform e op s))"
    by (rule Cons.IH)
  ultimately show ?case by (auto intro: map_le_trans)
qed

text \<open>
  C5: once a key is in the translation cache with a value, it has that value after any
  sequence of operations of the exporter, so no operation overwrites an entry with a
  different value.
\<close>

theorem cache_never_overwritten:
  assumes "cache s k = Some v"
  shows "cache (fold (perform e) ops s) k = Some v"
  using assms fold_perform_cache[where s=s and e=e and ops=ops]
  by (auto simp add: map_le_def dom_def)

theorem cache_never_overwritten_witness:
  "cache (fold (perform demo_env)
            [Translate_text (ascii ''hello'') (ascii ''pl'') 3 1, Export_all_specs,
             Batch_translate [ascii ''hello''] (ascii ''pl'')] primed)
     (cache_key (ascii ''hello'') (ascii ''pl'')) = Some (ascii ''czesc'')"
  using cache_never_overwritten [where s=primed
          and k="cache_key (ascii ''hello'') (ascii ''pl'')" and v="ascii ''czesc''"
          and e=demo_env
          and ops="[Translate_text (ascii ''hello'') (ascii ''pl'') 3 1, Export_all_specs,
             Batch_translate [ascii ''hello''] (ascii ''pl'')]"]
  by (simp add: primed_def fresh_def cache_key_def ascii_def NA_def)


end
